theory Spec2Isabelle
  imports Complex_Main "HOL-Library.AList" "HOL-Library.Log_Nat"
begin

section \<open>Data model\<close>

text \<open>
  The download orchestration engine of the Andalus downloader:
  \<^verbatim>\<open>src/core/models.py\<close>, \<^verbatim>\<open>src/core/database.py\<close>, \<^verbatim>\<open>src/core/download_task.py\<close>,
  \<^verbatim>\<open>src/core/download_manager.py\<close> and the \<^verbatim>\<open>ConnectionManager\<close> of \<^verbatim>\<open>src/api/app.py\<close>.

  \<^verbatim>\<open>DownloadStatus\<close> is the enumeration of \<^verbatim>\<open>models.py\<close>; \<open>status_value\<close> is its
  \<^verbatim>\<open>.value\<close> (the text stored in the \<^verbatim>\<open>status\<close> column) and \<open>DownloadStatus_of\<close> is the
  enumeration's constructor, which raises \<^verbatim>\<open>ValueError\<close> on any other text.
\<close>

datatype DownloadStatus = PENDING | DOWNLOADING | PAUSED | COMPLETED | FAILED | CANCELLED

fun status_value :: "DownloadStatus \<Rightarrow> string" where
  "status_value PENDING = ''pending''"
| "status_value DOWNLOADING = ''downloading''"
| "status_value PAUSED = ''paused''"
| "status_value COMPLETED = ''completed''"
| "status_value FAILED = ''failed''"
| "status_value CANCELLED = ''cancelled''"

definition DownloadStatus_of :: "string \<Rightarrow> DownloadStatus option" where
  "DownloadStatus_of s =
     (if s = ''pending'' then Some PENDING
      else if s = ''downloading'' then Some DOWNLOADING
      else if s = ''paused'' then Some PAUSED
      else if s = ''completed'' then Some COMPLETED
      else if s = ''failed'' then Some FAILED
      else if s = ''cancelled'' then Some CANCELLED
      else None)"

datatype error = DatabaseError | CallbackError | SendError | AttributeError

text \<open>\<^verbatim>\<open>VideoQuality\<close> of \<^verbatim>\<open>models.py\<close>, the type of the quality of a request.\<close>

datatype VideoQuality =
    BEST | WORST | Q_2160P | Q_1440P | Q_1080P | Q_720P | Q_480P | Q_360P | Q_240P | Q_144P
  | AUDIO_ONLY

subsection \<open>The record store (\<^verbatim>\<open>database.py\<close>)\<close>

text \<open>
  One row of the \<^verbatim>\<open>downloads\<close> table, with the columns the engine reads or writes
  here. \<^verbatim>\<open>created_at\<close> is an abstract timestamp (the code stores an ISO string and
  orders by it); \<^verbatim>\<open>started_at\<close> and \<^verbatim>\<open>completed_at\<close>, which only record the clock, and
  the descriptive columns (title, platform, format, quality, thumbnail, duration,
  metadata) are left out. \<open>rows\<close> is the table in insertion order. \<open>failing\<close> says that
  the store raises on every operation (lost connection, locked file): every method of
  \<^verbatim>\<open>Database\<close> logs and re-raises what \<^verbatim>\<open>aiosqlite\<close> raises.
\<close>

record download_row =
  row_id :: string
  row_url :: string
  row_status :: string
  row_progress :: real
  row_created_at :: nat
  row_error_message :: "string option"

record database =
  rows :: "download_row list"
  failing :: bool

text \<open>\<^verbatim>\<open>INSERT INTO downloads\<close>: \<^verbatim>\<open>id\<close> is the primary key, so a second row with the
  same id is refused.\<close>

definition insert_download :: "database \<Rightarrow> download_row \<Rightarrow> error + database" where
  "insert_download d r =
     (if failing d \<or> row_id r \<in> set (map row_id (rows d)) then Inl DatabaseError
      else Inr (d\<lparr>rows := rows d @ [r]\<rparr>))"

text \<open>\<^verbatim>\<open>UPDATE downloads SET ... WHERE id = ?\<close>; the result is \<^verbatim>\<open>cursor.rowcount > 0\<close>.
  The dictionary of new column values is the function applied to the row.\<close>

definition update_download ::
  "database \<Rightarrow> string \<Rightarrow> (download_row \<Rightarrow> download_row) \<Rightarrow> error + (bool \<times> database)" where
  "update_download d i f =
     (if failing d then Inl DatabaseError
      else Inr (i \<in> set (map row_id (rows d)),
                d\<lparr>rows := map (\<lambda>r. if row_id r = i then f r else r) (rows d)\<rparr>))"

definition get_download :: "database \<Rightarrow> string \<Rightarrow> error + download_row option" where
  "get_download d i =
     (if failing d then Inl DatabaseError else Inr (find (\<lambda>r. row_id r = i) (rows d)))"

text \<open>\<^verbatim>\<open>SELECT * FROM downloads [WHERE status = ?] ORDER BY created_at DESC LIMIT ?
  OFFSET ?\<close>. In Python \<^verbatim>\<open>if status:\<close> also takes the unfiltered query for the empty
  string. Rows created at the same time keep their table order here (SQLite leaves
  their order open).\<close>

definition get_downloads ::
  "database \<Rightarrow> string option \<Rightarrow> nat \<Rightarrow> nat \<Rightarrow> error + download_row list" where
  "get_downloads d status limit offset =
     (if failing d then Inl DatabaseError
      else Inr (take limit (drop offset
             (sort_key (\<lambda>r. - int (row_created_at r))
                (case status of
                   None \<Rightarrow> rows d
                 | Some s \<Rightarrow> if s = [] then rows d else filter (\<lambda>r. row_status r = s) (rows d))))))"

subsection \<open>Callbacks and task runners\<close>

text \<open>
  A registered callback is an opaque coroutine: all the engine sees of it is whether
  a call with a given event raises. \<open>notify_callbacks\<close> is the loop shared by
  \<^verbatim>\<open>_notify_status_callbacks\<close> and \<^verbatim>\<open>_on_progress_update\<close>: each callback is awaited
  inside its own \<^verbatim>\<open>try\<close>, an exception is logged and the loop goes on. The result
  lists the calls made, in order, each with whether it returned normally.
\<close>

record 'ev callback =
  cb_name :: string
  cb_raises :: "'ev \<Rightarrow> bool"

definition invoke :: "'ev callback \<Rightarrow> 'ev \<Rightarrow> error + unit" where
  "invoke c ev = (if cb_raises c ev then Inl CallbackError else Inr ())"

fun notify_callbacks :: "'ev callback list \<Rightarrow> 'ev \<Rightarrow> (string \<times> 'ev \<times> bool) list" where
  "notify_callbacks [] ev = []"
| "notify_callbacks (c # cs) ev =
     (case invoke c ev of
        Inl e \<Rightarrow> (cb_name c, ev, False) # notify_callbacks cs ev
      | Inr u \<Rightarrow> (cb_name c, ev, True) # notify_callbacks cs ev)"

text \<open>
  \<^verbatim>\<open>DownloadProgress\<close> of \<^verbatim>\<open>models.py\<close>, with the types of its fields:
  \<^verbatim>\<open>downloaded_bytes: int\<close>, \<^verbatim>\<open>total_bytes: Optional[int]\<close>, \<^verbatim>\<open>speed: Optional[float]\<close>,
  \<^verbatim>\<open>eta: Optional[int]\<close>, \<^verbatim>\<open>percentage: float\<close>. A Python number, an \<^verbatim>\<open>int\<close> or a
  \<^verbatim>\<open>float\<close>, is the real number it denotes.
\<close>

record DownloadProgress =
  downloaded_bytes :: int
  total_bytes :: "int option"
  speed :: "real option"
  eta :: "int option"
  percentage :: real
  progress_status :: DownloadStatus

text \<open>
  A \<^verbatim>\<open>DownloadTaskManager\<close> object with the fields of its \<^verbatim>\<open>DownloadTask\<close> that the
  engine reads or writes. \<open>phase\<close> is the position of the background coroutine
  \<^verbatim>\<open>start_download\<close> that \<^verbatim>\<open>_start_download\<close> launches for the object: not yet run,
  waiting for the fetch, or returned.
\<close>

datatype coroutine_phase = NotStarted | Fetching | Returned

record DownloadTaskManager =
  task_id :: string
  task_status :: DownloadStatus
  task_progress :: real
  task_downloaded_size :: real
  task_file_size :: "real option"
  task_file_path :: "string option"
  task_error_message :: "string option"
  cancelled :: bool
  paused :: bool
  phase :: coroutine_phase

definition is_active :: "DownloadTaskManager \<Rightarrow> bool" where
  "is_active r = (task_status r \<in> set [DOWNLOADING, PENDING])"

text \<open>
  \<^verbatim>\<open>_execute_download\<close>: the fetch itself is the external operation, whose outcome is
  the argument \<open>fetch\<close> (the file was downloaded and found). The code runs it only
  \<^verbatim>\<open>if not self._cancelled and not self._paused\<close> and returns \<^verbatim>\<open>False\<close> otherwise; every
  exception inside is turned into \<^verbatim>\<open>False\<close>.
\<close>

definition execute_download :: "bool \<Rightarrow> DownloadTaskManager \<Rightarrow> bool" where
  "execute_download fetch r = (if \<not> cancelled r \<and> \<not> paused r then fetch else False)"

subsection \<open>Progress samples (\<^verbatim>\<open>_progress_hook\<close>)\<close>

text \<open>
  The dictionary \<^verbatim>\<open>d\<close> that \<^verbatim>\<open>yt-dlp\<close> passes to the hook. A numeric entry is absent,
  \<^verbatim>\<open>None\<close> or a number; \<open>d_status\<close> is \<^verbatim>\<open>d['status']\<close>, \<open>None\<close> when the key is missing
  (a \<^verbatim>\<open>KeyError\<close>).
\<close>

datatype pyval = Absent | PyNone | Num real

record progress_sample =
  d_status :: "string option"
  d_downloaded_bytes :: pyval
  d_total_bytes :: pyval
  d_total_bytes_estimate :: pyval
  d_speed :: "real option"
  d_eta :: "real option"
  d_filename :: "string option"

text \<open>\<^verbatim>\<open>d.get(key, default)\<close>: \<open>None\<close> is Python's \<^verbatim>\<open>None\<close>.\<close>

definition dict_get :: "pyval \<Rightarrow> real \<Rightarrow> real option" where
  "dict_get v dflt = (case v of Absent \<Rightarrow> Some dflt | PyNone \<Rightarrow> None | Num x \<Rightarrow> Some x)"

text \<open>\<^verbatim>\<open>d.get('total_bytes') or d.get('total_bytes_estimate', 0)\<close>: the first operand
  is taken when it is a number other than zero.\<close>

definition sample_total :: "progress_sample \<Rightarrow> real option" where
  "sample_total d =
     (case d_total_bytes d of
        Num x \<Rightarrow> if x \<noteq> 0 then Some x else dict_get (d_total_bytes_estimate d) 0
      | Absent \<Rightarrow> dict_get (d_total_bytes_estimate d) 0
      | PyNone \<Rightarrow> dict_get (d_total_bytes_estimate d) 0)"

text \<open>
  Python's float arithmetic: the result of an operation is the exact result rounded
  to the nearest number with a 53 bit significand, a tie going to the even
  significand (IEEE 754 binary64). \<open>float_exponent x\<close> is the exponent \<open>e\<close> with
  \<open>2 powi e \<le> x < 2 powi (e + 1)\<close> of a positive \<open>x\<close>, and \<open>float_round\<close> the rounding.
  Overflow, subnormal numbers and \<^verbatim>\<open>nan\<close> are left out: byte counts and percentages
  are far from those ranges. An \<^verbatim>\<open>int\<close> operand is converted to \<^verbatim>\<open>float\<close> without loss
  below \<open>2 ^ 53\<close>, which is assumed of the byte counts. \<open>float_percentage\<close> is the
  expression \<^verbatim>\<open>(downloaded / total) * 100\<close>.
\<close>

definition round_half_even :: "real \<Rightarrow> int" where
  "round_half_even x =
     (let f = \<lfloor>x\<rfloor>; r = x - of_int f
      in if r < 1 / 2 then f else if 1 / 2 < r then f + 1 else if even f then f else f + 1)"

definition float_exponent :: "real \<Rightarrow> int" where
  "float_exponent x =
     (if 1 \<le> x then bitlen \<lfloor>x\<rfloor> - 1
      else (let k = bitlen \<lfloor>1 / x\<rfloor> - 1 in if 1 / x = 2 powi k then - k else - (k + 1)))"

definition float_round :: "real \<Rightarrow> real" where
  "float_round x =
     (if x = 0 then 0
      else (let u = 2 powi (float_exponent \<bar>x\<bar> - 52)
            in of_int (round_half_even (x / u)) * u))"

definition float_percentage :: "real \<Rightarrow> real \<Rightarrow> real" where
  "float_percentage downloaded tot = float_round (float_round (downloaded / tot) * 100)"

text \<open>
  The constructor call \<^verbatim>\<open>DownloadProgress(downloaded_bytes=..., total_bytes=...,
  percentage=..., speed=..., eta=..., status=DownloadStatus.DOWNLOADING)\<close>. The model
  class validates its arguments: an \<^verbatim>\<open>int\<close> field takes a whole number, also when it
  is given as a \<^verbatim>\<open>float\<close>, and the call raises \<^verbatim>\<open>ValidationError\<close> for a number with a
  fractional part. The result is \<open>None\<close> when it raises.
\<close>

definition is_whole :: "real \<Rightarrow> bool" where
  "is_whole x = (of_int \<lfloor>x\<rfloor> = x)"

definition new_DownloadProgress ::
  "real \<Rightarrow> real \<Rightarrow> real \<Rightarrow> real option \<Rightarrow> real option \<Rightarrow> DownloadProgress option" where
  "new_DownloadProgress downloaded tot pct spd et =
     (if is_whole downloaded \<and> is_whole tot \<and> (case et of None \<Rightarrow> True | Some x \<Rightarrow> is_whole x)
      then Some \<lparr>downloaded_bytes = \<lfloor>downloaded\<rfloor>, total_bytes = Some \<lfloor>tot\<rfloor>,
                 speed = spd, eta = map_option floor et, percentage = pct,
                 progress_status = DOWNLOADING\<rparr>
      else None)"

text \<open>
  The hook returns the updated object and the \<^verbatim>\<open>DownloadProgress\<close> handed to the
  progress callback, if one is. Comparing or dividing \<^verbatim>\<open>None\<close> raises \<^verbatim>\<open>TypeError\<close>,
  which the hook's \<^verbatim>\<open>except\<close> logs: nothing has been assigned by then. The three
  fields of the task are assigned before \<^verbatim>\<open>DownloadProgress\<close> is built (the task
  model does not validate assignments), so they keep their new values when that
  call raises, and nothing is handed to the callback then.
\<close>

definition progress_hook ::
  "progress_sample \<Rightarrow> DownloadTaskManager \<Rightarrow> DownloadTaskManager \<times> DownloadProgress option" where
  "progress_hook d r =
     (case d_status d of
        None \<Rightarrow> (r, None)
      | Some s \<Rightarrow>
          if s = ''downloading'' then
            (case sample_total d of
               None \<Rightarrow> (r, None)
             | Some tot \<Rightarrow>
                 if tot > 0 then
                   (case dict_get (d_downloaded_bytes d) 0 of
                      None \<Rightarrow> (r, None)
                    | Some downloaded \<Rightarrow>
                        (r\<lparr>task_progress := float_percentage downloaded tot,
                           task_downloaded_size := downloaded,
                           task_file_size := Some tot\<rparr>,
                         new_DownloadProgress downloaded tot (float_percentage downloaded tot)
                           (d_speed d) (d_eta d)))
                 else (r, None))
          else if s = ''finished'' then
            (r\<lparr>task_progress := 100, task_file_path := d_filename d\<rparr>, None)
          else (r, None))"

section \<open>The download manager (\<^verbatim>\<open>download_manager.py\<close>)\<close>

text \<open>
  The state of the engine: the fields of the \<^verbatim>\<open>DownloadManager\<close> object, the store
  behind \<^verbatim>\<open>get_database()\<close>, and the \<^verbatim>\<open>DownloadTaskManager\<close> objects created so far.
  The objects live in \<open>heap\<close>, addressed by position, because an object is shared
  between the registry \<^verbatim>\<open>active_downloads\<close> and the background coroutine launched for
  it, and outlives its registry entry. \<^verbatim>\<open>active_downloads\<close> is the dictionary from
  download id to object, in insertion order. \<open>status_calls\<close> and \<open>progress_calls\<close>
  record the calls made to the registered callbacks.

  Each method runs here as one step: the interleaving of two methods at their
  \<^verbatim>\<open>await\<close> points is not modelled, the interleaving of whole methods and of the
  phases of the background coroutines is (section \<open>Runs\<close>).
\<close>

record engine =
  max_concurrent_downloads :: int
  active_downloads :: "(string \<times> nat) list"
  download_queue :: "string list"
  running :: bool
  status_callbacks :: "(string \<times> DownloadStatus) callback list"
  progress_callbacks :: "(string \<times> DownloadProgress) callback list"
  heap :: "DownloadTaskManager list"
  db :: database
  status_calls :: "(string \<times> (string \<times> DownloadStatus) \<times> bool) list"
  progress_calls :: "(string \<times> (string \<times> DownloadProgress) \<times> bool) list"

text \<open>\<^verbatim>\<open>DownloadManager(max_concurrent_downloads)\<close>, over a given store.\<close>

definition DownloadManager :: "int \<Rightarrow> database \<Rightarrow> engine" where
  "DownloadManager n d =
     \<lparr>max_concurrent_downloads = n, active_downloads = [], download_queue = [],
      running = False, status_callbacks = [], progress_callbacks = [], heap = [],
      db = d, status_calls = [], progress_calls = []\<rparr>"

definition add_status_callback :: "(string \<times> DownloadStatus) callback \<Rightarrow> engine \<Rightarrow> engine" where
  "add_status_callback c e = e\<lparr>status_callbacks := status_callbacks e @ [c]\<rparr>"

definition add_progress_callback :: "(string \<times> DownloadProgress) callback \<Rightarrow> engine \<Rightarrow> engine" where
  "add_progress_callback c e = e\<lparr>progress_callbacks := progress_callbacks e @ [c]\<rparr>"

definition notify_status_callbacks :: "string \<Rightarrow> DownloadStatus \<Rightarrow> engine \<Rightarrow> engine" where
  "notify_status_callbacks i st e =
     e\<lparr>status_calls := status_calls e @ notify_callbacks (status_callbacks e) (i, st)\<rparr>"

definition on_progress_update :: "string \<Rightarrow> DownloadProgress \<Rightarrow> engine \<Rightarrow> engine" where
  "on_progress_update i p e =
     e\<lparr>progress_calls := progress_calls e @ notify_callbacks (progress_callbacks e) (i, p)\<rparr>"

text \<open>\<open>store_update\<close> is \<^verbatim>\<open>db = await get_database(); await db.update_download(...)\<close>.\<close>

definition store_update ::
  "string \<Rightarrow> (download_row \<Rightarrow> download_row) \<Rightarrow> engine \<Rightarrow> error + (bool \<times> engine)" where
  "store_update i f e =
     (case update_download (db e) i f of
        Inl err \<Rightarrow> Inl err
      | Inr (ok, d) \<Rightarrow> Inr (ok, e\<lparr>db := d\<rparr>))"

definition runner :: "engine \<Rightarrow> nat \<Rightarrow> DownloadTaskManager option" where
  "runner e a = (if a < length (heap e) then Some (heap e ! a) else None)"

definition set_runner :: "nat \<Rightarrow> (DownloadTaskManager \<Rightarrow> DownloadTaskManager) \<Rightarrow> engine \<Rightarrow> engine" where
  "set_runner a f e =
     (case runner e a of None \<Rightarrow> e | Some r \<Rightarrow> e\<lparr>heap := (heap e)[a := f r]\<rparr>)"

subsection \<open>Methods of \<^verbatim>\<open>DownloadTaskManager\<close>, on the object at an address\<close>

text \<open>\<^verbatim>\<open>_update_status\<close>: the status callback of every object is the manager's
  \<^verbatim>\<open>_on_status_update\<close>, which calls \<^verbatim>\<open>_notify_status_callbacks\<close>.\<close>

definition update_status :: "nat \<Rightarrow> DownloadStatus \<Rightarrow> engine \<Rightarrow> engine" where
  "update_status a st e =
     (case runner e a of
        None \<Rightarrow> e
      | Some r \<Rightarrow> notify_status_callbacks (task_id r) st (set_runner a (\<lambda>r. r\<lparr>task_status := st\<rparr>) e))"

text \<open>\<^verbatim>\<open>DownloadTaskManager.pause_download\<close>. \<^verbatim>\<open>_download_process\<close> is never assigned,
  so there is no process to terminate. An exception of the store is caught and the
  method returns \<^verbatim>\<open>False\<close>, the status already set.\<close>

definition task_pause_download :: "nat \<Rightarrow> engine \<Rightarrow> bool \<times> engine" where
  "task_pause_download a e =
     (case runner e a of
        None \<Rightarrow> (False, e)
      | Some r \<Rightarrow>
          (let e1 = update_status a PAUSED (set_runner a (\<lambda>r. r\<lparr>paused := True\<rparr>) e) in
           case store_update (task_id r) (\<lambda>w. w\<lparr>row_status := status_value PAUSED\<rparr>) e1 of
             Inl err \<Rightarrow> (False, e1)
           | Inr (ok, e2) \<Rightarrow> (True, e2)))"

text \<open>\<^verbatim>\<open>DownloadTaskManager.resume_download\<close>: it awaits a whole new fetch, whose
  outcome is \<open>fetch\<close>, and returns its result; the status stays \<^verbatim>\<open>DOWNLOADING\<close>.\<close>

definition task_resume_download :: "nat \<Rightarrow> bool \<Rightarrow> engine \<Rightarrow> bool \<times> engine" where
  "task_resume_download a fetch e =
     (case runner e a of
        None \<Rightarrow> (False, e)
      | Some r \<Rightarrow>
          (let e1 = update_status a DOWNLOADING (set_runner a (\<lambda>r. r\<lparr>paused := False\<rparr>) e) in
           case store_update (task_id r) (\<lambda>w. w\<lparr>row_status := status_value DOWNLOADING\<rparr>) e1 of
             Inl err \<Rightarrow> (False, e1)
           | Inr (ok, e2) \<Rightarrow> (execute_download fetch (r\<lparr>paused := False\<rparr>), e2)))"

text \<open>\<^verbatim>\<open>DownloadTaskManager.cancel_download\<close>. The removal of a partial file touches
  only the file system, which is not part of the state.\<close>

definition task_cancel_download :: "nat \<Rightarrow> engine \<Rightarrow> bool \<times> engine" where
  "task_cancel_download a e =
     (case runner e a of
        None \<Rightarrow> (False, e)
      | Some r \<Rightarrow>
          (let e1 = update_status a CANCELLED (set_runner a (\<lambda>r. r\<lparr>cancelled := True\<rparr>) e) in
           case store_update (task_id r) (\<lambda>w. w\<lparr>row_status := status_value CANCELLED\<rparr>) e1 of
             Inl err \<Rightarrow> (False, e1)
           | Inr (ok, e2) \<Rightarrow> (True, e2)))"

text \<open>
  \<^verbatim>\<open>DownloadTaskManager.start_download\<close>, the background coroutine, in two steps.
  \<open>task_start_download_begin\<close> runs it up to the call of \<^verbatim>\<open>_execute_download\<close>: the
  status becomes \<^verbatim>\<open>DOWNLOADING\<close> and is written to the store.
  \<open>task_start_download_finish\<close> is the fetch, with outcome \<open>fetch\<close>, and what follows
  it. \<open>task_start_failed\<close> is the \<^verbatim>\<open>except\<close> branch (\<open>msg\<close> stands for the text of the
  exception); when its own write to the store raises, the coroutine ends with that
  exception and the status set in memory stays.
\<close>

definition task_start_failed :: "nat \<Rightarrow> string \<Rightarrow> engine \<Rightarrow> engine" where
  "task_start_failed a msg e =
     (case runner e a of
        None \<Rightarrow> e
      | Some r \<Rightarrow>
          (let e1 = set_runner a (\<lambda>r. r\<lparr>task_error_message := Some msg, phase := Returned\<rparr>)
                      (update_status a FAILED e) in
           case store_update (task_id r)
                  (\<lambda>w. w\<lparr>row_status := status_value FAILED, row_error_message := Some msg\<rparr>) e1 of
             Inl err \<Rightarrow> e1
           | Inr (ok, e2) \<Rightarrow> e2))"

definition task_start_download_begin :: "nat \<Rightarrow> engine \<Rightarrow> engine" where
  "task_start_download_begin a e =
     (case runner e a of
        None \<Rightarrow> e
      | Some r \<Rightarrow>
          if phase r \<noteq> NotStarted then e
          else
            (let e1 = update_status a DOWNLOADING e in
             case store_update (task_id r) (\<lambda>w. w\<lparr>row_status := status_value DOWNLOADING\<rparr>) e1 of
               Inl err \<Rightarrow> task_start_failed a ''database error'' e1
             | Inr (ok, e2) \<Rightarrow> set_runner a (\<lambda>r. r\<lparr>phase := Fetching\<rparr>) e2))"

definition task_start_download_finish :: "nat \<Rightarrow> bool \<Rightarrow> engine \<Rightarrow> engine" where
  "task_start_download_finish a fetch e =
     (case runner e a of
        None \<Rightarrow> e
      | Some r \<Rightarrow>
          if phase r \<noteq> Fetching then e
          else
            (let success = execute_download fetch r;
                 e0 = set_runner a (\<lambda>r. r\<lparr>phase := Returned\<rparr>) e in
             if success \<and> \<not> cancelled r then
               (let e1 = set_runner a (\<lambda>r. r\<lparr>task_progress := 100\<rparr>) (update_status a COMPLETED e0) in
                case store_update (task_id r)
                       (\<lambda>w. w\<lparr>row_status := status_value COMPLETED, row_progress := 100\<rparr>) e1 of
                  Inl err \<Rightarrow> task_start_failed a ''database error'' e1
                | Inr (ok, e2) \<Rightarrow> e2)
             else if \<not> cancelled r then
               (let e1 = update_status a FAILED e0 in
                case store_update (task_id r)
                       (\<lambda>w. w\<lparr>row_status := status_value FAILED,
                               row_error_message := Some ''Download failed''\<rparr>) e1 of
                  Inl err \<Rightarrow> task_start_failed a ''database error'' e1
                | Inr (ok, e2) \<Rightarrow> e2)
             else e0))"

text \<open>A progress sample reaches the hook of the object while its fetch runs; the
  \<^verbatim>\<open>DownloadProgress\<close> it builds goes to \<^verbatim>\<open>_on_progress_update\<close>.\<close>

definition task_progress_sample :: "nat \<Rightarrow> progress_sample \<Rightarrow> engine \<Rightarrow> engine" where
  "task_progress_sample a d e =
     (case runner e a of
        None \<Rightarrow> e
      | Some r \<Rightarrow>
          if phase r \<noteq> Fetching then e
          else
            (case progress_hook d r of
               (r', None) \<Rightarrow> set_runner a (\<lambda>r. r') e
             | (r', Some p) \<Rightarrow> on_progress_update (task_id r) p (set_runner a (\<lambda>r. r') e)))"

subsection \<open>Methods of \<^verbatim>\<open>DownloadManager\<close>\<close>

text \<open>
  \<^verbatim>\<open>add_download\<close>: \<open>i\<close> is the fresh \<^verbatim>\<open>uuid4\<close> of the new task, \<open>quality\<close> the
  \<^verbatim>\<open>quality\<close> of the request (its default is \<^verbatim>\<open>VideoQuality.BEST\<close>) and \<open>t\<close> the
  clock. The task model keeps the value of an enumeration member, a string
  (\<^verbatim>\<open>use_enum_values\<close>), so for a request with a quality the expression
  \<^verbatim>\<open>task.quality.value\<close> raises \<^verbatim>\<open>AttributeError\<close>, which the method logs and re-raises
  before anything is inserted. An exception of the store is re-raised before the id
  is queued.
\<close>

definition add_download ::
  "string \<Rightarrow> string \<Rightarrow> VideoQuality option \<Rightarrow> nat \<Rightarrow> engine \<Rightarrow> error + engine" where
  "add_download i url quality t e =
     (case quality of
        Some q \<Rightarrow> Inl AttributeError
      | None \<Rightarrow>
          (case insert_download (db e)
                  \<lparr>row_id = i, row_url = url, row_status = status_value PENDING,
                   row_progress = 0, row_created_at = t, row_error_message = None\<rparr> of
             Inl err \<Rightarrow> Inl err
           | Inr d \<Rightarrow>
               Inr (notify_status_callbacks i PENDING
                      (e\<lparr>db := d, download_queue := download_queue e @ [i]\<rparr>))))"

definition pause_download :: "string \<Rightarrow> engine \<Rightarrow> bool \<times> engine" where
  "pause_download i e =
     (case map_of (active_downloads e) i of
        Some a \<Rightarrow>
          (case task_pause_download a e of
             (success, e1) \<Rightarrow>
               (success, if success then notify_status_callbacks i PAUSED e1 else e1))
      | None \<Rightarrow>
          (case store_update i (\<lambda>w. w\<lparr>row_status := status_value PAUSED\<rparr>) e of
             Inl err \<Rightarrow> (False, e)
           | Inr (success, e1) \<Rightarrow>
               (success, if success then notify_status_callbacks i PAUSED e1 else e1)))"

definition resume_download :: "string \<Rightarrow> bool \<Rightarrow> engine \<Rightarrow> bool \<times> engine" where
  "resume_download i fetch e =
     (case map_of (active_downloads e) i of
        Some a \<Rightarrow>
          (case task_resume_download a fetch e of
             (success, e1) \<Rightarrow>
               (success, if success then notify_status_callbacks i DOWNLOADING e1 else e1))
      | None \<Rightarrow>
          (case store_update i (\<lambda>w. w\<lparr>row_status := status_value PENDING\<rparr>) e of
             Inl err \<Rightarrow> (False, e)
           | Inr (success, e1) \<Rightarrow>
               (success,
                if success then
                  notify_status_callbacks i PENDING
                    (e1\<lparr>download_queue :=
                          (if i \<notin> set (download_queue e1) then download_queue e1 @ [i]
                           else download_queue e1)\<rparr>)
                else e1)))"

definition cancel_download :: "string \<Rightarrow> engine \<Rightarrow> bool \<times> engine" where
  "cancel_download i e =
     (let e0 = e\<lparr>download_queue :=
                   (if i \<in> set (download_queue e) then remove1 i (download_queue e)
                    else download_queue e)\<rparr> in
      case map_of (active_downloads e0) i of
        Some a \<Rightarrow>
          (case task_cancel_download a e0 of
             (success, e1) \<Rightarrow>
               (let e2 = e1\<lparr>active_downloads := AList.delete i (active_downloads e1)\<rparr> in
                (success, if success then notify_status_callbacks i CANCELLED e2 else e2)))
      | None \<Rightarrow>
          (case store_update i (\<lambda>w. w\<lparr>row_status := status_value CANCELLED\<rparr>) e0 of
             Inl err \<Rightarrow> (False, e0)
           | Inr (success, e1) \<Rightarrow>
               (success, if success then notify_status_callbacks i CANCELLED e1 else e1)))"

text \<open>\<^verbatim>\<open>get_system_status\<close>: the dictionary of five counts. \<open>count_status\<close> is the
  body of the loop over the rows, \<open>get_system_status_try\<close> the \<^verbatim>\<open>try\<close> block, and
  \<open>get_system_status\<close> adds the \<^verbatim>\<open>except\<close> branch.\<close>

record status_counts =
  n_active :: nat
  n_queued :: nat
  n_completed :: nat
  n_failed :: nat
  n_total :: nat

definition count_status :: "string \<Rightarrow> status_counts \<Rightarrow> status_counts" where
  "count_status status c =
     (if status \<in> set [''downloading''] then c\<lparr>n_active := n_active c + 1\<rparr>
      else if status \<in> set [''pending'', ''paused''] then c\<lparr>n_queued := n_queued c + 1\<rparr>
      else if status = ''completed'' then c\<lparr>n_completed := n_completed c + 1\<rparr>
      else if status = ''failed'' then c\<lparr>n_failed := n_failed c + 1\<rparr>
      else c)"

definition get_system_status_try :: "engine \<Rightarrow> error + status_counts" where
  "get_system_status_try e =
     (case get_downloads (db e) None 10000 0 of
        Inl err \<Rightarrow> Inl err
      | Inr all_downloads \<Rightarrow>
          Inr (fold (\<lambda>download. count_status (row_status download)) all_downloads
                 \<lparr>n_active = 0, n_queued = 0, n_completed = 0, n_failed = 0,
                  n_total = length all_downloads\<rparr>))"

definition get_system_status :: "engine \<Rightarrow> error + status_counts" where
  "get_system_status e =
     (case get_system_status_try e of
        Inl err \<Rightarrow>
          Inr \<lparr>n_active = 0, n_queued = 0, n_completed = 0, n_failed = 0, n_total = 0\<rparr>
      | Inr c \<Rightarrow> Inr c)"

text \<open>\<^verbatim>\<open>_load_pending_downloads\<close>: both queries take the default \<^verbatim>\<open>limit=50\<close>; an
  exception of either leaves the queue as it was.\<close>

definition load_pending_downloads :: "engine \<Rightarrow> engine" where
  "load_pending_downloads e =
     (case get_downloads (db e) (Some ''pending'') 50 0 of
        Inl err \<Rightarrow> e
      | Inr pending_downloads \<Rightarrow>
          (case get_downloads (db e) (Some ''paused'') 50 0 of
             Inl err \<Rightarrow> e
           | Inr paused_downloads \<Rightarrow>
               e\<lparr>download_queue := download_queue e @ map row_id pending_downloads
                                      @ map row_id paused_downloads\<rparr>))"

definition start :: "engine \<Rightarrow> engine" where
  "start e = (if running e then e else load_pending_downloads (e\<lparr>running := True\<rparr>))"

definition stop :: "engine \<Rightarrow> engine" where
  "stop e =
     (if \<not> running e then e
      else fold (\<lambda>download_id e'. snd (cancel_download download_id e'))
             (map fst (active_downloads e)) (e\<lparr>running := False\<rparr>))"

text \<open>\<^verbatim>\<open>_start_download\<close>: the new object takes the status of the row as it is in the
  store; it is registered and its coroutine is launched (\<open>phase = NotStarted\<close>). A
  missing row, an exception of the store or a status text outside the enumeration
  ends the method with nothing registered.\<close>

definition start_download :: "string \<Rightarrow> engine \<Rightarrow> engine" where
  "start_download i e =
     (case get_download (db e) i of
        Inl err \<Rightarrow> e
      | Inr None \<Rightarrow> e
      | Inr (Some download_data) \<Rightarrow>
          (case DownloadStatus_of (row_status download_data) of
             None \<Rightarrow> e
           | Some st \<Rightarrow>
               e\<lparr>heap := heap e @
                    [\<lparr>task_id = row_id download_data, task_status = st, task_progress = 0,
                      task_downloaded_size = 0, task_file_size = None, task_file_path = None,
                      task_error_message = None, cancelled = False, paused = False,
                      phase = NotStarted\<rparr>],
                  active_downloads := AList.update i (length (heap e)) (active_downloads e)\<rparr>))"

text \<open>One iteration of the loop of \<^verbatim>\<open>_process_queue\<close>, between two sleeps: the
  admission (an \<^verbatim>\<open>if\<close>), then the clean-up of the registry.\<close>

definition admit :: "engine \<Rightarrow> engine" where
  "admit e =
     (case download_queue e of
        [] \<Rightarrow> e
      | download_id # rest \<Rightarrow>
          if int (length (active_downloads e)) < max_concurrent_downloads e
          then start_download download_id (e\<lparr>download_queue := rest\<rparr>)
          else e)"

definition runner_is_active :: "engine \<Rightarrow> nat \<Rightarrow> bool" where
  "runner_is_active e a = (case runner e a of None \<Rightarrow> False | Some r \<Rightarrow> is_active r)"

definition clean_up :: "engine \<Rightarrow> engine" where
  "clean_up e =
     (let completed_downloads =
            map fst (filter (\<lambda>(download_id, a). \<not> runner_is_active e a) (active_downloads e))
      in e\<lparr>active_downloads := fold AList.delete completed_downloads (active_downloads e)\<rparr>)"

definition process_queue_step :: "engine \<Rightarrow> engine" where
  "process_queue_step e = (if running e then clean_up (admit e) else e)"

section \<open>Runs\<close>

text \<open>
  What can happen to the engine, one step at a time: a call of one of its methods, a
  step of a background coroutine or a progress sample for the object at an address,
  and the store starting or ceasing to fail. A run is a sequence of such steps.
\<close>

datatype action =
    Start
  | Stop
  | AddDownload string string "VideoQuality option" nat
  | PauseDownload string
  | ResumeDownload string bool
  | CancelDownload string
  | ProcessQueue
  | TaskBegin nat
  | TaskProgress nat progress_sample
  | TaskFinish nat bool
  | StoreFails bool

fun exec :: "action \<Rightarrow> engine \<Rightarrow> engine" where
  "exec Start e = start e"
| "exec Stop e = stop e"
| "exec (AddDownload i url quality t) e =
     (case add_download i url quality t e of Inl err \<Rightarrow> e | Inr e' \<Rightarrow> e')"
| "exec (PauseDownload i) e = snd (pause_download i e)"
| "exec (ResumeDownload i fetch) e = snd (resume_download i fetch e)"
| "exec (CancelDownload i) e = snd (cancel_download i e)"
| "exec ProcessQueue e = process_queue_step e"
| "exec (TaskBegin a) e = task_start_download_begin a e"
| "exec (TaskProgress a d) e = task_progress_sample a d e"
| "exec (TaskFinish a fetch) e = task_start_download_finish a fetch e"
| "exec (StoreFails b) e = e\<lparr>db := (db e)\<lparr>failing := b\<rparr>\<rparr>"

definition run :: "action list \<Rightarrow> engine \<Rightarrow> engine" where
  "run acts e = fold exec acts e"

section \<open>The connection manager (\<^verbatim>\<open>api/app.py\<close>)\<close>

text \<open>
  \<^verbatim>\<open>ConnectionManager\<close> holds the connected web sockets, which are told apart by
  identity: a socket is a number here. Whether \<^verbatim>\<open>send_text\<close> raises for a socket and
  a message is the argument \<open>fails\<close>. \<open>broadcast_loop\<close> is the first loop of
  \<^verbatim>\<open>broadcast\<close>, which gathers the sockets whose send raised and records every send
  with whether it went through; the second loop disconnects the gathered sockets.
\<close>

type_synonym WebSocket = nat

record ConnectionManager =
  active_connections :: "WebSocket list"

definition connect :: "WebSocket \<Rightarrow> ConnectionManager \<Rightarrow> ConnectionManager" where
  "connect w m = m\<lparr>active_connections := active_connections m @ [w]\<rparr>"

definition disconnect :: "WebSocket \<Rightarrow> ConnectionManager \<Rightarrow> ConnectionManager" where
  "disconnect w m =
     (if w \<in> set (active_connections m)
      then m\<lparr>active_connections := remove1 w (active_connections m)\<rparr> else m)"

definition send_text :: "(WebSocket \<Rightarrow> string \<Rightarrow> bool) \<Rightarrow> WebSocket \<Rightarrow> string \<Rightarrow> error + unit" where
  "send_text fails w message = (if fails w message then Inl SendError else Inr ())"

fun broadcast_loop ::
  "(WebSocket \<Rightarrow> string \<Rightarrow> bool) \<Rightarrow> string \<Rightarrow> WebSocket list \<Rightarrow> WebSocket list \<times> (WebSocket \<times> bool) list
     \<Rightarrow> WebSocket list \<times> (WebSocket \<times> bool) list" where
  "broadcast_loop fails message [] (disconnected, sent) = (disconnected, sent)"
| "broadcast_loop fails message (c # cs) (disconnected, sent) =
     (case send_text fails c message of
        Inl e \<Rightarrow> broadcast_loop fails message cs (disconnected @ [c], sent @ [(c, False)])
      | Inr u \<Rightarrow> broadcast_loop fails message cs (disconnected, sent @ [(c, True)]))"

definition broadcast ::
  "(WebSocket \<Rightarrow> string \<Rightarrow> bool) \<Rightarrow> string \<Rightarrow> ConnectionManager
     \<Rightarrow> ConnectionManager \<times> (WebSocket \<times> bool) list" where
  "broadcast fails message m =
     (case broadcast_loop fails message (active_connections m) ([], []) of
        (disconnected, sent) \<Rightarrow> (fold disconnect disconnected m, sent))"

section \<open>Inputs of the examples\<close>

text \<open>A row as \<^verbatim>\<open>add_download\<close> inserts it for a request without a quality, with a
  given status; and an empty store.\<close>

definition example_row :: "string \<Rightarrow> DownloadStatus \<Rightarrow> nat \<Rightarrow> download_row" where
  "example_row i st t =
     \<lparr>row_id = i, row_url = ''https://example.org/'' @ i, row_status = status_value st,
      row_progress = 0, row_created_at = t, row_error_message = None\<rparr>"

definition empty_store :: database where
  "empty_store = \<lparr>rows = [], failing = False\<rparr>"

text \<open>The status texts that \<^verbatim>\<open>get_system_status\<close> counts in one of its four
  buckets.\<close>

definition counted :: "string \<Rightarrow> bool" where
  "counted s = (s \<in> set [''downloading'', ''pending'', ''paused'', ''completed'', ''failed''])"

text \<open>An object whose fetch is running, and the sample \<^verbatim>\<open>{'status': 'downloading',
  'downloaded_bytes': b, 'total_bytes_estimate': t}\<close>.\<close>

definition example_task :: DownloadTaskManager where
  "example_task =
     \<lparr>task_id = ''a'', task_status = DOWNLOADING, task_progress = 0, task_downloaded_size = 0,
      task_file_size = None, task_file_path = None, task_error_message = None,
      cancelled = False, paused = False, phase = Fetching\<rparr>"

definition downloading_sample :: "real \<Rightarrow> real \<Rightarrow> progress_sample" where
  "downloading_sample b t =
     \<lparr>d_status = Some ''downloading'', d_downloaded_bytes = Num b, d_total_bytes = Absent,
      d_total_bytes_estimate = Num t, d_speed = None, d_eta = None, d_filename = None\<rparr>"

text \<open>The ids of the rows whose status is \<^verbatim>\<open>pending\<close> or \<^verbatim>\<open>paused\<close>.\<close>

definition recoverable_ids :: "database \<Rightarrow> string set" where
  "recoverable_ids d =
     set (map row_id (filter (\<lambda>r. row_status r = ''pending'' \<or> row_status r = ''paused'') (rows d)))"

text \<open>The status of a download as the store has it (\<^verbatim>\<open>get_download(id)['status']\<close>);
  \<open>None\<close> when there is no such row or the store fails.\<close>

definition stored_status :: "engine \<Rightarrow> string \<Rightarrow> string option" where
  "stored_status e i =
     (case get_download (db e) i of
        Inl err \<Rightarrow> None
      | Inr None \<Rightarrow> None
      | Inr (Some r) \<Rightarrow> Some (row_status r))"


definition one_queued :: engine where
  "one_queued = start (DownloadManager 3 \<lparr>rows = [example_row ''a'' PENDING 1], failing = False\<rparr>)"

definition one_completed :: engine where
  "one_completed = run [ProcessQueue, TaskBegin 0, TaskFinish 0 True, ProcessQueue] one_queued"


text \<open>A status callback that raises on every event.\<close>

definition raising_callback :: "string \<Rightarrow> (string \<times> DownloadStatus) callback" where
  "raising_callback n = \<lparr>cb_name = n, cb_raises = (\<lambda>ev. True)\<rparr>"

section \<open>The status snapshot\<close>

lemma fold_count_status:
  "fold (\<lambda>download. count_status (row_status download)) xs c =
     \<lparr>n_active = n_active c + length (filter (\<lambda>r. row_status r = ''downloading'') xs),
      n_queued = n_queued c + length (filter (\<lambda>r. row_status r \<in> set [''pending'', ''paused'']) xs),
      n_completed = n_completed c + length (filter (\<lambda>r. row_status r = ''completed'') xs),
      n_failed = n_failed c + length (filter (\<lambda>r. row_status r = ''failed'') xs),
      n_total = n_total c\<rparr>"
proof (induction xs arbitrary: c)
  case Nil
  show ?case by simp
next
  case (Cons x xs)
  show ?case
    unfolding fold_simps Cons.IH
    by (simp add: count_status_def)
qed

lemma length_get_downloads_all:
  "get_downloads d None limit 0 = Inr xs \<Longrightarrow> length xs = min (length (rows d)) limit"
  by (auto simp: get_downloads_def split: if_splits)

lemma status_partition_length:
  "length (filter (\<lambda>r. row_status r = ''downloading'') xs)
   + length (filter (\<lambda>r. row_status r \<in> set [''pending'', ''paused'']) xs)
   + length (filter (\<lambda>r. row_status r = ''completed'') xs)
   + length (filter (\<lambda>r. row_status r = ''failed'') xs)
   + length (filter (\<lambda>r. \<not> counted (row_status r)) xs) = length xs"
  by (induction xs) (auto simp: counted_def)

text \<open>
  C7, as stated: the four counts of the snapshot add up to its total. They do not
  when a record is \<^verbatim>\<open>cancelled\<close>: with one such record the total is 1 and every
  bucket is 0.
\<close>

theorem get_system_status_cancelled_uncounted:
  "(case get_system_status
           (DownloadManager 3 \<lparr>rows = [example_row ''a'' CANCELLED 1], failing = False\<rparr>) of
      Inl err \<Rightarrow> False
    | Inr c \<Rightarrow> n_total c = 1 \<and> n_active c + n_queued c + n_completed c + n_failed c = 0
               \<and> n_active c + n_queued c + n_completed c + n_failed c \<noteq> n_total c)"
  by code_simp

text \<open>
  C7, amended: over the records that the query returns (the 10000 newest at most),
  \<^verbatim>\<open>active\<close> counts those whose status is \<^verbatim>\<open>downloading\<close>, \<^verbatim>\<open>queued\<close> those \<^verbatim>\<open>pending\<close> or
  \<^verbatim>\<open>paused\<close>, \<^verbatim>\<open>completed\<close> and \<^verbatim>\<open>failed\<close> those of that status, and \<^verbatim>\<open>total\<close> all of
  them. A record is in at most one bucket; a \<^verbatim>\<open>cancelled\<close> record (any status outside
  the five) is in none, so the four counts and the number of such records add up to
  the total.
\<close>

theorem get_system_status_counts:
  assumes "get_downloads (db e) None 10000 0 = Inr all_downloads"
  shows "\<exists>c. get_system_status e = Inr c \<and>
     n_active c = length (filter (\<lambda>r. row_status r = ''downloading'') all_downloads) \<and>
     n_queued c = length (filter (\<lambda>r. row_status r \<in> set [''pending'', ''paused'']) all_downloads) \<and>
     n_completed c = length (filter (\<lambda>r. row_status r = ''completed'') all_downloads) \<and>
     n_failed c = length (filter (\<lambda>r. row_status r = ''failed'') all_downloads) \<and>
     n_total c = length all_downloads \<and>
     n_total c = min (length (rows (db e))) 10000 \<and>
     n_active c + n_queued c + n_completed c + n_failed c
       + length (filter (\<lambda>r. \<not> counted (row_status r)) all_downloads) = n_total c"
proof -
  have len: "length all_downloads = min (length (rows (db e))) 10000"
    using assms by (rule length_get_downloads_all)
  show ?thesis
    using assms len status_partition_length [of all_downloads]
    by (simp add: get_system_status_def get_system_status_try_def fold_count_status)
qed

theorem get_system_status_counts_witness:
  "\<exists>c. get_system_status
          (DownloadManager 3
             \<lparr>rows = [example_row ''a'' COMPLETED 1, example_row ''b'' CANCELLED 2,
                      example_row ''c'' PENDING 3], failing = False\<rparr>) = Inr c \<and>
       n_active c = 0 \<and> n_queued c = 1 \<and> n_completed c = 1 \<and> n_failed c = 0 \<and> n_total c = 3"
proof -
  have "get_downloads
          (db (DownloadManager 3
             \<lparr>rows = [example_row ''a'' COMPLETED 1, example_row ''b'' CANCELLED 2,
                      example_row ''c'' PENDING 3], failing = False\<rparr>)) None 10000 0 =
        Inr [example_row ''c'' PENDING 3, example_row ''b'' CANCELLED 2,
             example_row ''a'' COMPLETED 1]"
    by (simp add: DownloadManager_def get_downloads_def example_row_def)
  from get_system_status_counts [OF this] obtain c where
    "get_system_status
          (DownloadManager 3
             \<lparr>rows = [example_row ''a'' COMPLETED 1, example_row ''b'' CANCELLED 2,
                      example_row ''c'' PENDING 3], failing = False\<rparr>) = Inr c"
    "n_active c = 0" "n_queued c = 1" "n_completed c = 1" "n_failed c = 0" "n_total c = 3"
    by (auto simp: example_row_def)
  then show ?thesis by blast
qed

text \<open>
  C10: \<^verbatim>\<open>get_system_status\<close> returns a dictionary of counts whatever the state; when
  the store fails the counts are all zero, which is also the answer for an empty
  store.
\<close>

theorem get_system_status_never_raises:
  "(\<exists>c. get_system_status e = Inr c) \<and>
   (failing (db e) \<longrightarrow>
      get_system_status e =
        Inr \<lparr>n_active = 0, n_queued = 0, n_completed = 0, n_failed = 0, n_total = 0\<rparr> \<and>
      get_system_status e = get_system_status (e\<lparr>db := empty_store\<rparr>))"
  by (auto simp: get_system_status_def get_system_status_try_def get_downloads_def
        empty_store_def split: sum.splits)

theorem get_system_status_never_raises_witness:
  "failing (db (DownloadManager 3 \<lparr>rows = [example_row ''a'' COMPLETED 1], failing = True\<rparr>)) \<and>
   get_system_status (DownloadManager 3 \<lparr>rows = [example_row ''a'' COMPLETED 1], failing = True\<rparr>) =
     Inr \<lparr>n_active = 0, n_queued = 0, n_completed = 0, n_failed = 0, n_total = 0\<rparr>"
  using get_system_status_never_raises
          [of "DownloadManager 3 \<lparr>rows = [example_row ''a'' COMPLETED 1], failing = True\<rparr>"]
  by (simp add: DownloadManager_def)

section \<open>Progress\<close>

subsection \<open>Rounding\<close>


lemma round_half_even_of_int [simp]: "round_half_even (of_int n) = n"
  by (simp add: round_half_even_def)

lemma round_half_even_numeral [simp]: "round_half_even (numeral n) = numeral n"
  using round_half_even_of_int [of "numeral n"] by simp












lemma float_round_1 [simp]: "float_round 1 = 1"
  by code_simp

lemma float_round_100 [simp]: "float_round 100 = 100"
  by code_simp



subsection \<open>The progress hook\<close>




text \<open>A sample with a fractional total changes the task and reaches no callback; a
  \<^verbatim>\<open>finished\<close> sample sets the percentage to 100; a \<^verbatim>\<open>downloading\<close> sample without a
  positive total changes nothing.\<close>

lemma progress_hook_fractional_total:
  "snd (progress_hook (downloading_sample 50 (201 / 2)) example_task) = None \<and>
   task_file_size (fst (progress_hook (downloading_sample 50 (201 / 2)) example_task))
     = Some (201 / 2)"
  by code_simp

lemma progress_hook_finished:
  "d_status d = Some ''finished'' \<Longrightarrow> task_progress (fst (progress_hook d r)) = 100"
  by (simp add: progress_hook_def)

lemma progress_hook_no_total:
  "d_status d = Some ''downloading'' \<Longrightarrow> sample_total d = None \<or> sample_total d = Some 0
     \<Longrightarrow> progress_hook d r = (r, None)"
  by (auto simp: progress_hook_def)

section \<open>Notification\<close>

lemma notify_callbacks_calls:
  "notify_callbacks cbs ev = map (\<lambda>c. (cb_name c, ev, \<not> cb_raises c ev)) cbs"
  by (induction cbs) (simp_all add: invoke_def)

lemma broadcast_loop_acc:
  "broadcast_loop fails message cs (disconnected, sent) =
     (disconnected @ filter (\<lambda>c. fails c message) cs,
      sent @ map (\<lambda>c. (c, \<not> fails c message)) cs)"
  by (induction cs arbitrary: disconnected sent) (simp_all add: send_text_def)

lemma disconnect_remove1:
  "disconnect w m = m\<lparr>active_connections := remove1 w (active_connections m)\<rparr>"
  by (simp add: disconnect_def remove1_idem)

lemma fold_disconnect:
  "fold disconnect ws m = m\<lparr>active_connections := fold remove1 ws (active_connections m)\<rparr>"
  by (induction ws arbitrary: m) (simp_all add: disconnect_remove1)

text \<open>Removing, one occurrence at a time, the elements that satisfy \<open>P\<close> leaves the
  others in place; \<open>ys\<close> is the part of the list already passed.\<close>

lemma fold_remove1_filter:
  "\<forall>y \<in> set ys. \<not> P y \<Longrightarrow> fold remove1 (filter P xs) (ys @ xs) = ys @ filter (\<lambda>x. \<not> P x) xs"
proof (induction xs arbitrary: ys)
  case Nil
  show ?case by simp
next
  case (Cons x xs)
  show ?case
  proof (cases "P x")
    case True
    with Cons.prems have "x \<notin> set ys" by blast
    then have "remove1 x (ys @ x # xs) = ys @ xs" by (simp add: remove1_append)
    with True Cons.IH [OF Cons.prems] show ?thesis by simp
  next
    case False
    with Cons.prems have "\<forall>y \<in> set (ys @ [x]). \<not> P y" by simp
    from Cons.IH [OF this] False show ?thesis by simp
  qed
qed

text \<open>
  C8, as stated: a listener whose delivery fails is dropped from the listener set.
  A status callback of the download manager that raises stays registered: it is
  called, and fails, again for the next event.
\<close>

theorem failing_callback_is_kept:
  "(let e = add_status_callback (raising_callback ''ws'') (DownloadManager 3 empty_store);
        e1 = notify_status_callbacks ''a'' PAUSED e;
        e2 = notify_status_callbacks ''a'' CANCELLED e1
    in status_calls e1 = [(''ws'', (''a'', PAUSED), False)] \<and>
       map cb_name (status_callbacks e1) = [''ws''] \<and>
       status_calls e2 = [(''ws'', (''a'', PAUSED), False), (''ws'', (''a'', CANCELLED), False)])"
  by (simp add: add_status_callback_def raising_callback_def DownloadManager_def
        notify_status_callbacks_def invoke_def)

text \<open>
  C8, amended: \<^verbatim>\<open>_notify_status_callbacks\<close>, \<^verbatim>\<open>_on_progress_update\<close> and
  \<^verbatim>\<open>ConnectionManager.broadcast\<close> each call every registered listener once, in order,
  whether or not an earlier call raised. \<^verbatim>\<open>broadcast\<close> then removes exactly the
  sockets whose send raised. The callback lists of the download manager are left as
  they were, the callbacks that raised included.
\<close>

theorem publish_delivery:
  "status_calls (notify_status_callbacks i st e) =
     status_calls e @ map (\<lambda>c. (cb_name c, (i, st), \<not> cb_raises c (i, st))) (status_callbacks e) \<and>
   status_callbacks (notify_status_callbacks i st e) = status_callbacks e \<and>
   progress_calls (on_progress_update i p e) =
     progress_calls e @ map (\<lambda>c. (cb_name c, (i, p), \<not> cb_raises c (i, p))) (progress_callbacks e) \<and>
   progress_callbacks (on_progress_update i p e) = progress_callbacks e \<and>
   snd (broadcast fails message m) = map (\<lambda>c. (c, \<not> fails c message)) (active_connections m) \<and>
   active_connections (fst (broadcast fails message m)) =
     filter (\<lambda>c. \<not> fails c message) (active_connections m)"
proof -
  have "fold remove1 (filter (\<lambda>c. fails c message) (active_connections m)) ([] @ active_connections m)
        = [] @ filter (\<lambda>c. \<not> fails c message) (active_connections m)"
    by (rule fold_remove1_filter) simp
  then show ?thesis
    by (simp add: notify_status_callbacks_def on_progress_update_def notify_callbacks_calls
          broadcast_def broadcast_loop_acc fold_disconnect)
qed

theorem publish_delivery_witness:
  "snd (broadcast (\<lambda>c message. c = 2) ''event'' \<lparr>active_connections = [1, 2, 3]\<rparr>)
     = [(1, True), (2, False), (3, True)] \<and>
   active_connections (fst (broadcast (\<lambda>c message. c = 2) ''event'' \<lparr>active_connections = [1, 2, 3]\<rparr>))
     = [1, 3] \<and>
   status_callbacks (notify_status_callbacks ''a'' PAUSED
      (add_status_callback (raising_callback ''ws'') (DownloadManager 3 empty_store)))
     = [raising_callback ''ws'']"
  using publish_delivery [where i = "''a''" and st = PAUSED
      and e = "add_status_callback (raising_callback ''ws'') (DownloadManager 3 empty_store)"
      and fails = "\<lambda>c message. c = 2" and message = "''event''"
      and m = "\<lparr>active_connections = [1, 2, 3]\<rparr>"]
  by (simp add: add_status_callback_def DownloadManager_def)

section \<open>Startup recovery\<close>

lemma get_downloads_status:
  "\<not> failing d \<Longrightarrow> s \<noteq> [] \<Longrightarrow>
     get_downloads d (Some s) limit 0 =
       Inr (take limit (sort_key (\<lambda>r. - int (row_created_at r))
              (filter (\<lambda>r. row_status r = s) (rows d))))"
  by (simp add: get_downloads_def)

text \<open>
  C3, as stated: a record found \<^verbatim>\<open>downloading\<close> at startup is reset to \<^verbatim>\<open>pending\<close> and
  queued again. \<^verbatim>\<open>start\<close> neither changes such a record nor queues it, and the next
  iteration of the queue processor has nothing to admit.
\<close>

theorem start_leaves_active_record:
  "(let e = start (DownloadManager 3 \<lparr>rows = [example_row ''a'' DOWNLOADING 1], failing = False\<rparr>)
    in map row_status (rows (db e)) = [''downloading''] \<and> download_queue e = [] \<and>
       ''a'' \<notin> set (download_queue e) \<and>
       download_queue (process_queue_step e) = [] \<and> active_downloads (process_queue_step e) = [])"
  by code_simp

text \<open>
  C3, amended: when \<^verbatim>\<open>start\<close> runs on a stopped manager and the store answers, it
  changes no record and appends to the pending list ids of \<^verbatim>\<open>pending\<close> and \<^verbatim>\<open>paused\<close>
  records only; when there are at most 50 records of each of the two statuses, it
  appends the id of every one of them. A \<^verbatim>\<open>downloading\<close> record stays as it is.
\<close>

theorem start_recovers_pending_and_paused:
  assumes "\<not> running e" and "\<not> failing (db e)"
  shows "db (start e) = db e \<and>
         (\<exists>added. download_queue (start e) = download_queue e @ added \<and>
            set added \<subseteq> recoverable_ids (db e) \<and>
            (length (filter (\<lambda>r. row_status r = ''pending'') (rows (db e))) \<le> 50 \<and>
             length (filter (\<lambda>r. row_status r = ''paused'') (rows (db e))) \<le> 50
               \<longrightarrow> set added = recoverable_ids (db e)))"
proof -
  let ?k = "\<lambda>r. - int (row_created_at r)"
  let ?pe = "filter (\<lambda>r. row_status r = ''pending'') (rows (db e))"
  let ?pa = "filter (\<lambda>r. row_status r = ''paused'') (rows (db e))"
  let ?added = "map row_id (take 50 (sort_key ?k ?pe)) @ map row_id (take 50 (sort_key ?k ?pa))"
  have q: "download_queue (start e) = download_queue e @ ?added" and d: "db (start e) = db e"
    using assms by (simp_all add: start_def load_pending_downloads_def get_downloads_status)
  have sub: "set ?added \<subseteq> recoverable_ids (db e)"
  proof
    fix i assume "i \<in> set ?added"
    then consider r where "r \<in> set (take 50 (sort_key ?k ?pe))" "i = row_id r"
      | r where "r \<in> set (take 50 (sort_key ?k ?pa))" "i = row_id r"
      by auto
    then show "i \<in> recoverable_ids (db e)"
    proof cases
      case 1
      then have "r \<in> set ?pe" by (metis in_set_takeD set_sort)
      with 1 show ?thesis by (auto simp: recoverable_ids_def)
    next
      case 2
      then have "r \<in> set ?pa" by (metis in_set_takeD set_sort)
      with 2 show ?thesis by (auto simp: recoverable_ids_def)
    qed
  qed
  have full: "set ?added = recoverable_ids (db e)"
    if "length ?pe \<le> 50" "length ?pa \<le> 50"
  proof -
    from that have "take 50 (sort_key ?k ?pe) = sort_key ?k ?pe"
      and "take 50 (sort_key ?k ?pa) = sort_key ?k ?pa"
      by simp_all
    then show ?thesis by (auto simp: recoverable_ids_def)
  qed
  from q d sub full show ?thesis by blast
qed

theorem start_recovers_pending_and_paused_witness:
  "\<not> running (DownloadManager 3
      \<lparr>rows = [example_row ''a'' PENDING 1, example_row ''b'' DOWNLOADING 2, example_row ''c'' PAUSED 3],
       failing = False\<rparr>) \<and>
   download_queue (start (DownloadManager 3
      \<lparr>rows = [example_row ''a'' PENDING 1, example_row ''b'' DOWNLOADING 2, example_row ''c'' PAUSED 3],
       failing = False\<rparr>)) = [''a'', ''c''] \<and>
   map row_status (rows (db (start (DownloadManager 3
      \<lparr>rows = [example_row ''a'' PENDING 1, example_row ''b'' DOWNLOADING 2, example_row ''c'' PAUSED 3],
       failing = False\<rparr>)))) = [''pending'', ''downloading'', ''paused'']"
  using start_recovers_pending_and_paused [of "DownloadManager 3
      \<lparr>rows = [example_row ''a'' PENDING 1, example_row ''b'' DOWNLOADING 2, example_row ''c'' PAUSED 3],
       failing = False\<rparr>"]
  by (simp add: DownloadManager_def start_def load_pending_downloads_def get_downloads_def
        example_row_def)

section \<open>What each method leaves unchanged\<close>

lemma store_update_eq:
  "store_update i f e =
     (if failing (db e) then Inl DatabaseError
      else Inr (i \<in> set (map row_id (rows (db e))),
                e\<lparr>db := (db e)\<lparr>rows := map (\<lambda>r. if row_id r = i then f r else r) (rows (db e))\<rparr>\<rparr>))"
  by (simp add: store_update_def update_download_def)

lemma notify_status_callbacks_frame [simp]:
  "active_downloads (notify_status_callbacks i st e) = active_downloads e"
  "download_queue (notify_status_callbacks i st e) = download_queue e"
  "max_concurrent_downloads (notify_status_callbacks i st e) = max_concurrent_downloads e"
  "running (notify_status_callbacks i st e) = running e"
  "db (notify_status_callbacks i st e) = db e"
  "heap (notify_status_callbacks i st e) = heap e"
  by (simp_all add: notify_status_callbacks_def)

lemma on_progress_update_frame [simp]:
  "active_downloads (on_progress_update i p e) = active_downloads e"
  "download_queue (on_progress_update i p e) = download_queue e"
  "max_concurrent_downloads (on_progress_update i p e) = max_concurrent_downloads e"
  "running (on_progress_update i p e) = running e"
  "db (on_progress_update i p e) = db e"
  "heap (on_progress_update i p e) = heap e"
  by (simp_all add: on_progress_update_def)

lemma set_runner_frame [simp]:
  "active_downloads (set_runner a f e) = active_downloads e"
  "download_queue (set_runner a f e) = download_queue e"
  "max_concurrent_downloads (set_runner a f e) = max_concurrent_downloads e"
  "running (set_runner a f e) = running e"
  "db (set_runner a f e) = db e"
  "length (heap (set_runner a f e)) = length (heap e)"
  by (simp_all add: set_runner_def split: option.splits)

lemma update_status_frame [simp]:
  "active_downloads (update_status a st e) = active_downloads e"
  "download_queue (update_status a st e) = download_queue e"
  "max_concurrent_downloads (update_status a st e) = max_concurrent_downloads e"
  "running (update_status a st e) = running e"
  "db (update_status a st e) = db e"
  "length (heap (update_status a st e)) = length (heap e)"
  by (simp_all add: update_status_def split: option.splits)

lemma task_pause_download_frame [simp]:
  "active_downloads (snd (task_pause_download a e)) = active_downloads e"
  "download_queue (snd (task_pause_download a e)) = download_queue e"
  "max_concurrent_downloads (snd (task_pause_download a e)) = max_concurrent_downloads e"
  "running (snd (task_pause_download a e)) = running e"
  by (simp_all add: task_pause_download_def store_update_eq Let_def split: option.splits)

lemma task_resume_download_frame [simp]:
  "active_downloads (snd (task_resume_download a fetch e)) = active_downloads e"
  "download_queue (snd (task_resume_download a fetch e)) = download_queue e"
  "max_concurrent_downloads (snd (task_resume_download a fetch e)) = max_concurrent_downloads e"
  "running (snd (task_resume_download a fetch e)) = running e"
  by (simp_all add: task_resume_download_def store_update_eq Let_def split: option.splits)

lemma task_cancel_download_frame [simp]:
  "active_downloads (snd (task_cancel_download a e)) = active_downloads e"
  "download_queue (snd (task_cancel_download a e)) = download_queue e"
  "max_concurrent_downloads (snd (task_cancel_download a e)) = max_concurrent_downloads e"
  "running (snd (task_cancel_download a e)) = running e"
  by (simp_all add: task_cancel_download_def store_update_eq Let_def split: option.splits)

lemma task_start_failed_frame [simp]:
  "active_downloads (task_start_failed a msg e) = active_downloads e"
  "download_queue (task_start_failed a msg e) = download_queue e"
  "max_concurrent_downloads (task_start_failed a msg e) = max_concurrent_downloads e"
  "running (task_start_failed a msg e) = running e"
  by (simp_all add: task_start_failed_def store_update_eq Let_def split: option.splits)

lemma task_start_download_begin_frame [simp]:
  "active_downloads (task_start_download_begin a e) = active_downloads e"
  "download_queue (task_start_download_begin a e) = download_queue e"
  "max_concurrent_downloads (task_start_download_begin a e) = max_concurrent_downloads e"
  "running (task_start_download_begin a e) = running e"
  by (simp_all add: task_start_download_begin_def store_update_eq Let_def split: option.splits)

lemma task_start_download_finish_frame [simp]:
  "active_downloads (task_start_download_finish a fetch e) = active_downloads e"
  "download_queue (task_start_download_finish a fetch e) = download_queue e"
  "max_concurrent_downloads (task_start_download_finish a fetch e) = max_concurrent_downloads e"
  "running (task_start_download_finish a fetch e) = running e"
  by (simp_all add: task_start_download_finish_def store_update_eq Let_def split: option.splits)

lemma task_progress_sample_frame [simp]:
  "active_downloads (task_progress_sample a d e) = active_downloads e"
  "download_queue (task_progress_sample a d e) = download_queue e"
  "max_concurrent_downloads (task_progress_sample a d e) = max_concurrent_downloads e"
  "running (task_progress_sample a d e) = running e"
  by (simp_all add: task_progress_sample_def split: option.splits prod.splits)



lemma pause_download_frame [simp]:
  "active_downloads (snd (pause_download i e)) = active_downloads e"
  "max_concurrent_downloads (snd (pause_download i e)) = max_concurrent_downloads e"
  by (simp_all add: pause_download_def store_update_eq case_prod_beta split: option.splits)

lemma resume_download_frame [simp]:
  "active_downloads (snd (resume_download i fetch e)) = active_downloads e"
  "max_concurrent_downloads (snd (resume_download i fetch e)) = max_concurrent_downloads e"
  by (simp_all add: resume_download_def store_update_eq case_prod_beta split: option.splits)


lemma load_pending_downloads_frame [simp]:
  "active_downloads (load_pending_downloads e) = active_downloads e"
  "max_concurrent_downloads (load_pending_downloads e) = max_concurrent_downloads e"
  by (simp_all add: load_pending_downloads_def split: sum.splits)

lemma start_frame [simp]:
  "active_downloads (start e) = active_downloads e"
  "max_concurrent_downloads (start e) = max_concurrent_downloads e"
  by (simp_all add: start_def)

lemma start_download_frame [simp]:
  "download_queue (start_download i e) = download_queue e"
  "running (start_download i e) = running e"
  by (simp_all add: start_download_def split: sum.splits option.splits)

lemma clean_up_frame [simp]:
  "download_queue (clean_up e) = download_queue e"
  "heap (clean_up e) = heap e"
  "running (clean_up e) = running e"
  by (simp_all add: clean_up_def Let_def)

section \<open>Cancelling\<close>





section \<open>The size of the registry\<close>















section \<open>One iteration of the queue processor\<close>








section \<open>Pausing a queued download\<close>

text \<open>No branch of \<^verbatim>\<open>pause_download\<close> touches the pending list.\<close>

lemma pause_download_leaves_queue:
  "download_queue (snd (pause_download i e)) = download_queue e"
  by (simp add: pause_download_def store_update_eq case_prod_beta split: option.splits)

text \<open>
  C5: \<^verbatim>\<open>pause_download\<close> on a queued download writes \<^verbatim>\<open>paused\<close> to the store and
  leaves the id in the pending list (\<^verbatim>\<open>cancel_download\<close> takes it out). The next
  iteration admits it and its coroutine sets it to \<^verbatim>\<open>downloading\<close>.
\<close>

theorem pause_download_keeps_queue_entry:
  "(let e1 = snd (pause_download ''a'' one_queued);
        e2 = run [ProcessQueue, TaskBegin 0] e1
    in download_queue one_queued = [''a''] \<and> active_downloads one_queued = [] \<and>
       fst (pause_download ''a'' one_queued) \<and>
       map row_status (rows (db e1)) = [''paused''] \<and>
       download_queue e1 = [''a''] \<and>
       map task_id (heap e2) = [''a''] \<and>
       map task_status (heap e2) = [DOWNLOADING] \<and>
       map row_status (rows (db e2)) = [''downloading''] \<and>
       download_queue (snd (cancel_download ''a'' one_queued)) = [])"
  by code_simp

section \<open>Status transitions\<close>

lemma find_map_update:
  assumes "\<And>r. row_id (f r) = row_id r"
  shows "find (\<lambda>r. row_id r = i) (map (\<lambda>r. if row_id r = i then f r else r) xs)
           = map_option f (find (\<lambda>r. row_id r = i) xs)"
  by (induction xs) (simp_all add: assms)

lemma find_Some_member:
  "find (\<lambda>r. row_id r = i) xs = Some r \<Longrightarrow> i \<in> row_id ` set xs"
  by (induction xs) (auto split: if_splits)

lemma stored_status_Some:
  "stored_status e i = Some s \<longleftrightarrow>
     \<not> failing (db e) \<and> (\<exists>r. find (\<lambda>r. row_id r = i) (rows (db e)) = Some r \<and> row_status r = s)"
  by (auto simp: stored_status_def get_download_def split: option.splits)

lemma stored_status_after_update:
  assumes "stored_status e i = Some s"
  shows "store_update i (\<lambda>w. w\<lparr>row_status := s'\<rparr>) e =
           Inr (True, e\<lparr>db := (db e)\<lparr>rows := map (\<lambda>r. if row_id r = i then r\<lparr>row_status := s'\<rparr> else r)
                                              (rows (db e))\<rparr>\<rparr>)"
    and "stored_status
           (e\<lparr>db := (db e)\<lparr>rows := map (\<lambda>r. if row_id r = i then r\<lparr>row_status := s'\<rparr> else r)
                                     (rows (db e))\<rparr>\<rparr>) i = Some s'"
proof -
  from assms obtain r where nf: "\<not> failing (db e)"
    and f: "find (\<lambda>r. row_id r = i) (rows (db e)) = Some r"
    by (auto simp: stored_status_Some)
  from f have "i \<in> row_id ` set (rows (db e))" by (rule find_Some_member)
  with nf show "store_update i (\<lambda>w. w\<lparr>row_status := s'\<rparr>) e =
           Inr (True, e\<lparr>db := (db e)\<lparr>rows := map (\<lambda>r. if row_id r = i then r\<lparr>row_status := s'\<rparr> else r)
                                              (rows (db e))\<rparr>\<rparr>)"
    by (simp add: store_update_eq)
  from nf f show "stored_status
           (e\<lparr>db := (db e)\<lparr>rows := map (\<lambda>r. if row_id r = i then r\<lparr>row_status := s'\<rparr> else r)
                                     (rows (db e))\<rparr>\<rparr>) i = Some s'"
    by (simp add: stored_status_def get_download_def find_map_update)
qed

lemma stored_status_frame [simp]:
  "stored_status (notify_status_callbacks j st e) i = stored_status e i"
  "stored_status (e\<lparr>download_queue := q\<rparr>) i = stored_status e i"
  by (simp_all add: stored_status_def)

text \<open>
  C1, as stated: once a task is completed, failed or cancelled, no pause, resume or
  cancel changes its status. A completed download is set to \<^verbatim>\<open>pending\<close> and queued
  again by \<^verbatim>\<open>resume_download\<close>, then admitted and set to \<^verbatim>\<open>downloading\<close>;
  \<^verbatim>\<open>pause_download\<close> sets it to \<^verbatim>\<open>paused\<close> and \<^verbatim>\<open>cancel_download\<close> to \<^verbatim>\<open>cancelled\<close>.
\<close>

theorem completed_task_leaves_terminal_state:
  "(let e1 = snd (resume_download ''a'' True one_completed);
        e2 = run [ProcessQueue, TaskBegin 1] e1
    in map row_status (rows (db one_completed)) = [''completed''] \<and>
       map task_status (heap one_completed) = [COMPLETED] \<and>
       active_downloads one_completed = [] \<and>
       fst (resume_download ''a'' True one_completed) \<and>
       map row_status (rows (db e1)) = [''pending''] \<and>
       download_queue e1 = [''a''] \<and>
       map row_status (rows (db e2)) = [''downloading''] \<and>
       map row_status (rows (db (snd (pause_download ''a'' one_completed)))) = [''paused''] \<and>
       map row_status (rows (db (snd (cancel_download ''a'' one_completed)))) = [''cancelled''])"
  by code_simp

text \<open>
  C1, amended: the methods do not look at the current status. For a download that
  has a record and no entry in the registry, whatever the status of the record,
  \<^verbatim>\<open>pause_download\<close>, \<^verbatim>\<open>resume_download\<close> and \<^verbatim>\<open>cancel_download\<close> succeed and leave it
  \<^verbatim>\<open>paused\<close>, \<^verbatim>\<open>pending\<close> and in the pending list, and \<^verbatim>\<open>cancelled\<close>.
\<close>

theorem control_overwrites_status:
  assumes "map_of (active_downloads e) i = None" and "stored_status e i = Some s"
  shows "fst (pause_download i e) \<and>
         stored_status (snd (pause_download i e)) i = Some ''paused'' \<and>
         fst (resume_download i fetch e) \<and>
         stored_status (snd (resume_download i fetch e)) i = Some ''pending'' \<and>
         i \<in> set (download_queue (snd (resume_download i fetch e))) \<and>
         fst (cancel_download i e) \<and>
         stored_status (snd (cancel_download i e)) i = Some ''cancelled''"
proof -
  note u = stored_status_after_update [OF assms(2)]
  have p: "fst (pause_download i e) \<and> stored_status (snd (pause_download i e)) i = Some ''paused''"
    using assms(1) u [of "''paused''"] by (simp add: pause_download_def)
  have r: "fst (resume_download i fetch e) \<and>
           stored_status (snd (resume_download i fetch e)) i = Some ''pending'' \<and>
           i \<in> set (download_queue (snd (resume_download i fetch e)))"
    using assms(1) u [of "''pending''"] by (simp add: resume_download_def)
  let ?e0 = "e\<lparr>download_queue := remove1 i (download_queue e)\<rparr>"
  have "stored_status ?e0 i = Some s" using assms(2) by simp
  note u0 = stored_status_after_update [OF this]
  have c: "fst (cancel_download i e) \<and> stored_status (snd (cancel_download i e)) i = Some ''cancelled''"
    using assms(1) u0 [of "''cancelled''"] u [of "''cancelled''"] by (simp add: cancel_download_def)
  from p r c show ?thesis by blast
qed

theorem control_overwrites_status_witness:
  "map_of (active_downloads one_completed) ''a'' = None \<and>
   stored_status one_completed ''a'' = Some ''completed'' \<and>
   stored_status (snd (pause_download ''a'' one_completed)) ''a'' = Some ''paused'' \<and>
   stored_status (snd (resume_download ''a'' True one_completed)) ''a'' = Some ''pending'' \<and>
   stored_status (snd (cancel_download ''a'' one_completed)) ''a'' = Some ''cancelled''"
proof -
  have a: "map_of (active_downloads one_completed) ''a'' = None"
    and s: "stored_status one_completed ''a'' = Some ''completed''"
    by code_simp+
  from control_overwrites_status [OF a s, of True] a s show ?thesis by simp
qed

end
